theory Spec2Isabelle
  imports Main "HOL-Library.AList"
begin

section \<open>Python values\<close>

text \<open>
  The bridge handles loosely typed data: parsed JSON replies, keyword arguments and
  records. A value is one of Python's JSON types. A string is its UTF-8 byte sequence.
  A float is kept as the text that Python's \<^verbatim>\<open>repr\<close> prints for it, which is all the
  code ever asks of a float apart from its truth value. A dict is an association list in
  insertion order; \<^const>\<open>map_of\<close> reads a key and \<^const>\<open>AList.update\<close> assigns one
  (in place when the key exists, at the end otherwise), as a Python dict does.
\<close>

datatype json =
    JNull
  | JBool bool
  | JInt int
  | JFloat string
  | JStr string
  | JList "json list"
  | JDict "(string \<times> json) list"

text \<open>Exceptions: the repository's own \<^verbatim>\<open>OdooError\<close> and the built-in ones the code
  can run into. Each carries the text of \<^verbatim>\<open>str(e)\<close>.\<close>

datatype exn =
    OdooError string
  | AttributeError string
  | TypeError string
  | ValueError string
  | KeyError string
  | IndexError string

fun exn_str :: "exn \<Rightarrow> string" where
  "exn_str (OdooError m) = m"
| "exn_str (AttributeError m) = m"
| "exn_str (TypeError m) = m"
| "exn_str (ValueError m) = m"
| "exn_str (KeyError m) = m"
| "exn_str (IndexError m) = m"

text \<open>Sequencing of a computation that may raise: the first exception ends it.\<close>

fun then_do :: "exn + 'a \<Rightarrow> ('a \<Rightarrow> exn + 'b) \<Rightarrow> exn + 'b" where
  "then_do (Inl e) f = Inl e"
| "then_do (Inr v) f = f v"

text \<open>\<^verbatim>\<open>bool(v)\<close>: None, False, zero, and the empty string, list and dict are false.\<close>

fun truthy :: "json \<Rightarrow> bool" where
  "truthy JNull = False"
| "truthy (JBool b) = b"
| "truthy (JInt i) = (i \<noteq> 0)"
| "truthy (JFloat s) = (s \<noteq> ''0.0'' \<and> s \<noteq> ''-0.0'')"
| "truthy (JStr s) = (s \<noteq> [])"
| "truthy (JList xs) = (xs \<noteq> [])"
| "truthy (JDict d) = (d \<noteq> [])"

text \<open>\<^verbatim>\<open>a or b\<close> on values.\<close>

definition py_or :: "json \<Rightarrow> json \<Rightarrow> json" where
  "py_or a b = (if truthy a then a else b)"

text \<open>\<^verbatim>\<open>isinstance(v, int)\<close>: \<^verbatim>\<open>bool\<close> is a subclass of \<^verbatim>\<open>int\<close> in Python.\<close>

fun isinstance_int :: "json \<Rightarrow> bool" where
  "isinstance_int (JInt i) = True"
| "isinstance_int (JBool b) = True"
| "isinstance_int v = False"

fun type_name :: "json \<Rightarrow> string" where
  "type_name JNull = ''NoneType''"
| "type_name (JBool b) = ''bool''"
| "type_name (JInt i) = ''int''"
| "type_name (JFloat s) = ''float''"
| "type_name (JStr s) = ''str''"
| "type_name (JList xs) = ''list''"
| "type_name (JDict d) = ''dict''"

definition quoted :: "string \<Rightarrow> string" where
  "quoted s = [CHR 0x27] @ s @ [CHR 0x27]"

subsection \<open>Text of a value: \<^verbatim>\<open>str\<close> and \<^verbatim>\<open>repr\<close>\<close>

fun nat_digits :: "nat \<Rightarrow> string" where
  "nat_digits n =
     (if n < 10 then [char_of (48 + n)]
      else nat_digits (n div 10) @ [char_of (48 + n mod 10)])"

definition str_int :: "int \<Rightarrow> string" where
  "str_int i = (if i < 0 then CHR ''-'' # nat_digits (nat (- i)) else nat_digits (nat i))"

text \<open>\<^verbatim>\<open>sep.join(parts)\<close>.\<close>

fun join :: "string \<Rightarrow> string list \<Rightarrow> string" where
  "join sep [] = []"
| "join sep [x] = x"
| "join sep (x # y # ys) = x @ sep @ join sep (y # ys)"

definition hex_digit :: "nat \<Rightarrow> char" where
  "hex_digit d = (if d < 10 then char_of (48 + d) else char_of (87 + d))"

text \<open>
  \<^verbatim>\<open>repr\<close> of a string picks double quotes when the text holds a single quote and no
  double quote, and single quotes otherwise; it escapes the quote, the backslash and the
  ASCII control characters. Bytes from 0x80 on encode the non-ASCII characters. Python
  keeps such a character when the Unicode tables of the interpreter call it printable,
  and writes an escape for it otherwise (U+00A0 comes out as a backslash, \<^verbatim>\<open>xa0\<close>).
  The tables are not part of the repository: \<open>esc\<close> is what \<^verbatim>\<open>repr\<close> writes for a
  maximal run of such bytes, and every function that prints a value takes it as its first
  argument.
\<close>

definition repr_char :: "char \<Rightarrow> char \<Rightarrow> string" where
  "repr_char quote c =
     (let n = (of_char c :: nat) in
      if c = quote \<or> c = CHR 0x5C then [CHR 0x5C, c]
      else if n = 9 then [CHR 0x5C, CHR ''t'']
      else if n = 10 then [CHR 0x5C, CHR ''n'']
      else if n = 13 then [CHR 0x5C, CHR ''r'']
      else if n < 32 \<or> n = 127
        then [CHR 0x5C, CHR ''x'', hex_digit (n div 16), hex_digit (n mod 16)]
      else [c])"

text \<open>The characters in order: an ASCII one goes through \<^const>\<open>repr_char\<close>; the bytes
  from 0x80 on are gathered in \<open>run\<close> and handed to \<open>esc\<close> when the run ends.\<close>

fun repr_chars :: "(string \<Rightarrow> string) \<Rightarrow>
    char \<Rightarrow> string \<Rightarrow> string \<Rightarrow> string" where
  "repr_chars esc quote run [] = (if run = [] then [] else esc run)"
| "repr_chars esc quote run (c # cs) =
     (if 128 \<le> (of_char c :: nat) then repr_chars esc quote (run @ [c]) cs
      else (if run = [] then [] else esc run) @ repr_char quote c
           @ repr_chars esc quote [] cs)"

definition repr_str :: "(string \<Rightarrow> string) \<Rightarrow>
    string \<Rightarrow> string" where
  "repr_str esc s =
     (let quote = (if CHR 0x27 \<in> set s \<and> CHR 0x22 \<notin> set s then CHR 0x22 else CHR 0x27)
      in [quote] @ repr_chars esc quote [] s @ [quote])"

fun repr :: "(string \<Rightarrow> string) \<Rightarrow> json \<Rightarrow> string" where
  "repr esc JNull = ''None''"
| "repr esc (JBool b) = (if b then ''True'' else ''False'')"
| "repr esc (JInt i) = str_int i"
| "repr esc (JFloat s) = s"
| "repr esc (JStr s) = repr_str esc s"
| "repr esc (JList xs) = ''['' @ join '', '' (map (repr esc) xs) @ '']''"
| "repr esc (JDict d) =
     ''{'' @ join '', '' (map (\<lambda>(k, v). repr_str esc k @ '': '' @ repr esc v) d) @ ''}''"

text \<open>\<^verbatim>\<open>str(v)\<close>, also what an f-string prints: a string is itself, anything else its
  \<^verbatim>\<open>repr\<close>.\<close>

definition str :: "(string \<Rightarrow> string) \<Rightarrow> json \<Rightarrow> string" where
  "str esc v = (case v of JStr s \<Rightarrow> s | _ \<Rightarrow> repr esc v)"

subsection \<open>Reading values\<close>

text \<open>The exception of a method call on a value whose type lacks the method.\<close>

definition no_attribute :: "json \<Rightarrow> string \<Rightarrow> exn" where
  "no_attribute v attr =
     AttributeError (quoted (type_name v) @ '' object has no attribute '' @ quoted attr)"

text \<open>\<^verbatim>\<open>d.get(key, default)\<close> on a dict.\<close>

definition dict_get :: "(string \<times> json) list \<Rightarrow> string \<Rightarrow> json \<Rightarrow> json" where
  "dict_get d key dflt = (case map_of d key of Some x \<Rightarrow> x | None \<Rightarrow> dflt)"

text \<open>\<^verbatim>\<open>v.get(key, default)\<close> on any value: only a dict has the method.\<close>

definition py_get :: "json \<Rightarrow> string \<Rightarrow> json \<Rightarrow> exn + json" where
  "py_get v key dflt =
     (case v of
        JDict d \<Rightarrow> Inr (dict_get d key dflt)
      | _ \<Rightarrow> Inl (no_attribute v ''get''))"

text \<open>\<^verbatim>\<open>needle in text\<close> on strings.\<close>

fun contains_sub :: "string \<Rightarrow> string \<Rightarrow> bool" where
  "contains_sub p [] = (p = [])"
| "contains_sub p (c # cs) = (take (length p) (c # cs) = p \<or> contains_sub p cs)"

text \<open>\<^verbatim>\<open>key in v\<close> for a string key: key membership in a dict, element membership in a
  list, substring in a string; the other types are not containers.\<close>

definition py_in :: "string \<Rightarrow> json \<Rightarrow> exn + bool" where
  "py_in key v =
     (case v of
        JDict d \<Rightarrow> Inr (map_of d key \<noteq> None)
      | JList xs \<Rightarrow> Inr (JStr key \<in> set xs)
      | JStr s \<Rightarrow> Inr (contains_sub key s)
      | _ \<Rightarrow> Inl (TypeError (''argument of type '' @ quoted (type_name v)
                              @ '' is not iterable'')))"

text \<open>\<^verbatim>\<open>v[key]\<close> for a string key.\<close>

definition py_subscript :: "(string \<Rightarrow> string) \<Rightarrow>
    json \<Rightarrow> string \<Rightarrow> exn + json" where
  "py_subscript esc v key =
     (case v of
        JDict d \<Rightarrow> (case map_of d key of Some x \<Rightarrow> Inr x | None \<Rightarrow> Inl (KeyError (repr_str esc key)))
      | JList xs \<Rightarrow> Inl (TypeError ''list indices must be integers or slices, not str'')
      | JStr s \<Rightarrow> Inl (TypeError (''string indices must be integers, not '' @ quoted ''str''))
      | _ \<Rightarrow> Inl (TypeError (quoted (type_name v) @ '' object is not subscriptable'')))"

section \<open>Configuration (config.py)\<close>

record Settings =
  url :: string
  db :: "string option"
  api_key :: "string option"
  user :: "string option"
  password :: "string option"
  mcp_transport :: string
  mcp_host :: string
  mcp_port :: int
  max_records :: int
  timeout :: int

text \<open>Truth value of an optional string: None and the empty string are false.\<close>

definition truthy_opt :: "string option \<Rightarrow> bool" where
  "truthy_opt x = (case x of None \<Rightarrow> False | Some s \<Rightarrow> s \<noteq> [])"

definition has_api_key :: "Settings \<Rightarrow> bool" where
  "has_api_key s = truthy_opt (Settings.api_key s)"

definition has_credentials :: "Settings \<Rightarrow> bool" where
  "has_credentials s = (truthy_opt (Settings.user s) \<and> truthy_opt (Settings.password s))"

definition can_connect :: "Settings \<Rightarrow> bool" where
  "can_connect s = (has_api_key s \<or> has_credentials s)"

section \<open>The client (odoo\_client.py)\<close>

record OdooClient =
  url :: string
  db :: "string option"
  api_key :: "string option"
  user :: "string option"
  password :: "string option"
  timeout :: int

text \<open>\<^verbatim>\<open>a or b\<close> on optional strings.\<close>

definition or_opt :: "string option \<Rightarrow> string option \<Rightarrow> string option" where
  "or_opt a b = (if truthy_opt a then a else b)"

definition rstrip :: "char \<Rightarrow> string \<Rightarrow> string" where
  "rstrip c s = rev (dropWhile (\<lambda>x. x = c) (rev s))"

text \<open>The constructor \<^verbatim>\<open>OdooClient.__init__\<close>: every argument falls back on the
  settings.\<close>

definition init :: "Settings \<Rightarrow> string option \<Rightarrow> string option \<Rightarrow> string option
    \<Rightarrow> string option \<Rightarrow> string option \<Rightarrow> int \<Rightarrow> OdooClient" where
  "init settings url0 db0 api_key0 user0 password0 timeout0 =
     \<lparr> url = rstrip CHR ''/'' (case or_opt url0 (Some (Settings.url settings)) of
                                Some u \<Rightarrow> u | None \<Rightarrow> Settings.url settings),
       db = or_opt db0 (Settings.db settings),
       api_key = or_opt api_key0 (Settings.api_key settings),
       user = or_opt user0 (Settings.user settings),
       password = or_opt password0 (Settings.password settings),
       timeout = (if timeout0 \<noteq> 0 then timeout0 else Settings.timeout settings) \<rparr>"

text \<open>\<^verbatim>\<open>get_client()\<close> builds the process-wide client with no argument; the settings
  never change, so every call sees the same client.\<close>

definition get_client :: "Settings \<Rightarrow> OdooClient" where
  "get_client settings = init settings None None None None None 30"

subsection \<open>The HTTP exchange\<close>

text \<open>
  What one \<^verbatim>\<open>POST\<close> can come to, as far as \<^verbatim>\<open>_request\<close> tells the cases apart:
  the exchange fails (\<^verbatim>\<open>httpx.RequestError\<close>, with its text), the status is not a
  success (\<^verbatim>\<open>raise_for_status\<close> raises \<^verbatim>\<open>HTTPStatusError\<close>; status code and body), the
  body is not JSON (\<^verbatim>\<open>response.json()\<close> raises a \<^verbatim>\<open>ValueError\<close>, with its text), or the
  body parses to a value.
\<close>

datatype http_outcome =
    RequestError string
  | HTTPStatusError int string
  | NotJSON string
  | Reply json

text \<open>The network: the backend's answer to each request, and the requests sent so far
  (URL and JSON body).\<close>

record net =
  respond :: "string \<Rightarrow> json \<Rightarrow> http_outcome"
  sent :: "(string \<times> json) list"

definition post :: "net \<Rightarrow> string \<Rightarrow> json \<Rightarrow> http_outcome \<times> net" where
  "post n u body = (respond n u body, n\<lparr>sent := sent n @ [(u, body)]\<rparr>)"

subsection \<open>\<^verbatim>\<open>OdooClient._request\<close>\<close>

text \<open>Lines 36 to 41: the authentication written into the keyword arguments.\<close>

definition add_authentication :: "OdooClient \<Rightarrow> (string \<times> json) list \<Rightarrow> (string \<times> json) list" where
  "add_authentication self params =
     (if truthy_opt (api_key self) then
        (case api_key self of
           Some k \<Rightarrow> AList.update ''api_key'' (JStr k) params
         | None \<Rightarrow> params)
      else if truthy_opt (user self) \<and> truthy_opt (password self) then
        (case (user self, password self) of
           (Some u, Some p) \<Rightarrow>
             AList.update ''password'' (JStr p) (AList.update ''user'' (JStr u) params)
         | _ \<Rightarrow> params)
      else params)"

text \<open>Lines 43 to 48: the JSON-RPC envelope.\<close>

definition payload :: "(string \<times> json) list \<Rightarrow> json" where
  "payload params =
     JDict [(''jsonrpc'', JStr ''2.0''), (''method'', JStr ''call''),
            (''params'', JDict params), (''id'', JInt 1)]"

text \<open>Lines 57 to 67: what is made of a parsed reply.\<close>

definition read_reply :: "(string \<Rightarrow> string) \<Rightarrow>
    json \<Rightarrow> exn + json" where
  "read_reply esc result =
     then_do (py_in ''error'' result) (\<lambda>has_error.
       if has_error then
         then_do (py_subscript esc result ''error'') (\<lambda>error.
           then_do
             (case error of
                JDict d \<Rightarrow>
                  then_do (py_get error ''data'' (JDict [])) (\<lambda>data.
                    py_get data ''message'' (JStr (str esc error)))
              | _ \<Rightarrow> Inr (JStr (str esc error)))
             (\<lambda>msg. Inl (OdooError (''Odoo error: '' @ str esc msg))))
       else py_get result ''result'' (JDict []))"

definition request :: "(string \<Rightarrow> string) \<Rightarrow>
    OdooClient \<Rightarrow> string \<Rightarrow> (string \<times> json) list \<Rightarrow> net
    \<Rightarrow> (exn + json) \<times> net" where
  "request esc self endpoint params0 n =
     (let target = url self @ ''/mcp/'' @ endpoint;
          params = add_authentication self params0;
          (outcome, n') = post n target (payload params)
      in (case outcome of
            RequestError text \<Rightarrow> Inl (OdooError (''Connection error: '' @ text))
          | HTTPStatusError code body \<Rightarrow>
              Inl (OdooError (''HTTP error '' @ str_int code @ '': '' @ body))
          | NotJSON text \<Rightarrow> Inl (ValueError text)
          | Reply result \<Rightarrow> read_reply esc result,
          n'))"

subsection \<open>The operations of the client\<close>

text \<open>The two lines every operation but \<^verbatim>\<open>get_server_info\<close> runs on the result:
  \<^verbatim>\<open>if result.get("error"): raise OdooError(result.get("message", "Unknown error"))\<close>.\<close>

definition raise_if_error :: "(string \<Rightarrow> string) \<Rightarrow>
    json \<Rightarrow> exn + unit" where
  "raise_if_error esc result =
     then_do (py_get result ''error'' JNull) (\<lambda>flag.
       if truthy flag then
         then_do (py_get result ''message'' (JStr ''Unknown error'')) (\<lambda>m.
           Inl (OdooError (str esc m)))
       else Inr ())"

text \<open>\<^verbatim>\<open>result.get("data", {}).get(key, default)\<close>.\<close>

definition get_data :: "json \<Rightarrow> string \<Rightarrow> json \<Rightarrow> exn + json" where
  "get_data result key dflt =
     then_do (py_get result ''data'' (JDict [])) (\<lambda>data. py_get data key dflt)"

text \<open>Optional arguments as values: None is \<^verbatim>\<open>null\<close>.\<close>

definition opt_list :: "json list option \<Rightarrow> json" where
  "opt_list x = (case x of None \<Rightarrow> JNull | Some xs \<Rightarrow> JList xs)"

definition opt_str :: "string option \<Rightarrow> json" where
  "opt_str x = (case x of None \<Rightarrow> JNull | Some s \<Rightarrow> JStr s)"

definition opt_dict :: "(string \<times> json) list option \<Rightarrow> json" where
  "opt_dict x = (case x of None \<Rightarrow> JNull | Some d \<Rightarrow> JDict d)"

text \<open>\<^verbatim>\<open>domain or []\<close>.\<close>

definition or_empty :: "json list option \<Rightarrow> json" where
  "or_empty x = (case x of None \<Rightarrow> JList [] | Some xs \<Rightarrow> JList xs)"

definition get_server_info :: "(string \<Rightarrow> string) \<Rightarrow>
    OdooClient \<Rightarrow> net \<Rightarrow> (exn + json) \<times> net" where
  "get_server_info esc self n = request esc self ''info'' [] n"

definition list_models :: "(string \<Rightarrow> string) \<Rightarrow>
    OdooClient \<Rightarrow> net \<Rightarrow> (exn + json) \<times> net" where
  "list_models esc self n =
     (let (r, n') = request esc self ''models'' [] n
      in (then_do r (\<lambda>result.
            then_do (raise_if_error esc result) (\<lambda>_.
              get_data result ''models'' (JList []))), n'))"

definition get_fields :: "(string \<Rightarrow> string) \<Rightarrow>
    OdooClient \<Rightarrow> string \<Rightarrow> net \<Rightarrow> (exn + json) \<times> net" where
  "get_fields esc self model n =
     (let (r, n') = request esc self ''fields'' [(''model'', JStr model)] n
      in (then_do r (\<lambda>result.
            then_do (raise_if_error esc result) (\<lambda>_.
              get_data result ''fields'' (JList []))), n'))"

definition search :: "(string \<Rightarrow> string) \<Rightarrow>
    OdooClient \<Rightarrow> string \<Rightarrow> json list option \<Rightarrow> json list option \<Rightarrow> int
    \<Rightarrow> int \<Rightarrow> string option \<Rightarrow> net \<Rightarrow> (exn + json) \<times> net" where
  "search esc self model domain fields' limit offset order n =
     (let (r, n') = request esc self ''search''
                      [(''model'', JStr model), (''domain'', or_empty domain),
                       (''fields'', opt_list fields'), (''limit'', JInt limit),
                       (''offset'', JInt offset), (''order'', opt_str order)] n
      in (then_do r (\<lambda>result.
            then_do (raise_if_error esc result) (\<lambda>_.
              get_data result ''records'' (JList []))), n'))"

definition read :: "(string \<Rightarrow> string) \<Rightarrow>
    OdooClient \<Rightarrow> string \<Rightarrow> int \<Rightarrow> json list option \<Rightarrow> net
    \<Rightarrow> (exn + json) \<times> net" where
  "read esc self model record_id fields' n =
     (let (r, n') = request esc self ''read''
                      [(''model'', JStr model), (''record_id'', JInt record_id),
                       (''fields'', opt_list fields')] n
      in (then_do r (\<lambda>result.
            then_do (raise_if_error esc result) (\<lambda>_.
              get_data result ''record'' (JDict []))), n'))"

definition count :: "(string \<Rightarrow> string) \<Rightarrow>
    OdooClient \<Rightarrow> string \<Rightarrow> json list option \<Rightarrow> net \<Rightarrow> (exn + json) \<times> net" where
  "count esc self model domain n =
     (let (r, n') = request esc self ''count''
                      [(''model'', JStr model), (''domain'', or_empty domain)] n
      in (then_do r (\<lambda>result.
            then_do (raise_if_error esc result) (\<lambda>_.
              get_data result ''count'' (JInt 0))), n'))"

definition create :: "(string \<Rightarrow> string) \<Rightarrow>
    OdooClient \<Rightarrow> string \<Rightarrow> (string \<times> json) list \<Rightarrow> net
    \<Rightarrow> (exn + json) \<times> net" where
  "create esc self model values n =
     (let (r, n') = request esc self ''create''
                      [(''model'', JStr model), (''values'', JDict values)] n
      in (then_do r (\<lambda>result.
            then_do (raise_if_error esc result) (\<lambda>_.
              get_data result ''id'' JNull)), n'))"

definition "write" :: "(string \<Rightarrow> string) \<Rightarrow>
    OdooClient \<Rightarrow> string \<Rightarrow> int \<Rightarrow> (string \<times> json) list \<Rightarrow> net
    \<Rightarrow> (exn + json) \<times> net" where
  "write esc self model record_id values n =
     (let (r, n') = request esc self ''write''
                      [(''model'', JStr model), (''record_id'', JInt record_id),
                       (''values'', JDict values)] n
      in (then_do r (\<lambda>result.
            then_do (raise_if_error esc result) (\<lambda>_. Inr (JBool True))), n'))"

definition unlink :: "(string \<Rightarrow> string) \<Rightarrow>
    OdooClient \<Rightarrow> string \<Rightarrow> int \<Rightarrow> net \<Rightarrow> (exn + json) \<times> net" where
  "unlink esc self model record_id n =
     (let (r, n') = request esc self ''unlink''
                      [(''model'', JStr model), (''record_id'', JInt record_id)] n
      in (then_do r (\<lambda>result.
            then_do (raise_if_error esc result) (\<lambda>_. Inr (JBool True))), n'))"

definition execute :: "(string \<Rightarrow> string) \<Rightarrow>
    OdooClient \<Rightarrow> string \<Rightarrow> string \<Rightarrow> json list option \<Rightarrow> json list option
    \<Rightarrow> (string \<times> json) list option \<Rightarrow> net \<Rightarrow> (exn + json) \<times> net" where
  "execute esc self model method record_ids args kwargs n =
     (let (r, n') = request esc self ''execute''
                      [(''model'', JStr model), (''method'', JStr method),
                       (''record_ids'', opt_list record_ids), (''args'', opt_list args),
                       (''kwargs_data'', opt_dict kwargs)] n
      in (then_do r (\<lambda>result.
            then_do (raise_if_error esc result) (\<lambda>_.
              get_data result ''result'' JNull)), n'))"

section \<open>Output formatting (server.py)\<close>

definition nl :: string where
  "nl = [CHR 0x0A]"

text \<open>\<^verbatim>\<open>value is None or value == '' or value is False\<close>: the values a formatter
  leaves out.\<close>

definition skip_value :: "json \<Rightarrow> bool" where
  "skip_value val = (val = JNull \<or> val = JStr [] \<or> val = JBool False)"

text \<open>\<^verbatim>\<open>isinstance(value, list) and len(value) == 2 and isinstance(value[0], int)\<close>.\<close>

definition is_many2one :: "json \<Rightarrow> bool" where
  "is_many2one val =
     (case val of JList xs \<Rightarrow> length xs = 2 \<and> isinstance_int (xs ! 0) | _ \<Rightarrow> False)"

text \<open>\<^verbatim>\<open>f"{value[1]} (ID: {value[0]})"\<close>, used under \<^const>\<open>is_many2one\<close> only.\<close>

definition many2one_text :: "(string \<Rightarrow> string) \<Rightarrow>
    json list \<Rightarrow> string" where
  "many2one_text esc xs = str esc (xs ! 1) @ '' (ID: '' @ str esc (xs ! 0) @ '')''"

subsection \<open>\<^verbatim>\<open>format_record\<close>\<close>

record groups =
  basic_fields :: "(string \<times> json) list"
  relation_fields :: "(string \<times> string) list"
  other_fields :: "(string \<times> string) list"

text \<open>\<^verbatim>\<open>f"{len(value)} items: {value[:5]}{'...' if len(value) > 5 else ''}"\<close>.\<close>

definition items_text :: "(string \<Rightarrow> string) \<Rightarrow>
    json list \<Rightarrow> string" where
  "items_text esc xs =
     str_int (int (length xs)) @ '' items: '' @ str esc (JList (take 5 xs))
       @ (if length xs > 5 then ''...'' else [])"

text \<open>One round of the loop over \<^verbatim>\<open>record.items()\<close> (lines 491 to 507).\<close>

definition group_field :: "(string \<Rightarrow> string) \<Rightarrow>
    groups \<Rightarrow> string \<times> json \<Rightarrow> groups" where
  "group_field esc g item =
     (let key = fst item; val = snd item in
      if key \<in> set [''id'', ''display_name'', ''__last_update''] then g
      else if skip_value val then g
      else if is_many2one val then
        (case val of
           JList xs \<Rightarrow> g\<lparr>relation_fields := relation_fields g @ [(key, many2one_text esc xs)]\<rparr>
         | _ \<Rightarrow> g)
      else
        (case val of
           JList xs \<Rightarrow>
             (if xs \<noteq> [] then g\<lparr>other_fields := other_fields g @ [(key, items_text esc xs)]\<rparr>
              else g)
         | JStr s \<Rightarrow> g\<lparr>basic_fields := basic_fields g @ [(key, val)]\<rparr>
         | JInt i \<Rightarrow> g\<lparr>basic_fields := basic_fields g @ [(key, val)]\<rparr>
         | JFloat f \<Rightarrow> g\<lparr>basic_fields := basic_fields g @ [(key, val)]\<rparr>
         | JBool b \<Rightarrow> g\<lparr>basic_fields := basic_fields g @ [(key, val)]\<rparr>
         | _ \<Rightarrow> g\<lparr>other_fields := other_fields g @ [(key, str esc val)]\<rparr>))"

definition group_fields :: "(string \<Rightarrow> string) \<Rightarrow>
    (string \<times> json) list \<Rightarrow> groups" where
  "group_fields esc d =
     foldl (group_field esc) \<lparr>basic_fields = [], relation_fields = [], other_fields = []\<rparr> d"

text \<open>\<^verbatim>\<open>f"- **{key}**: {value}"\<close>.\<close>

definition field_line :: "string \<Rightarrow> string \<Rightarrow> string" where
  "field_line key text = ''- **'' @ key @ ''**: '' @ text"

text \<open>The heading of a record: its display name, else its name, else its id.\<close>

definition record_name :: "(string \<Rightarrow> string) \<Rightarrow>
    (string \<times> json) list \<Rightarrow> json \<Rightarrow> json" where
  "record_name esc d rec_id =
     py_or (py_or (dict_get d ''display_name'' JNull) (dict_get d ''name'' JNull))
           (JStr (''ID '' @ str esc rec_id))"

text \<open>The list \<^verbatim>\<open>lines\<close> of \<^verbatim>\<open>format_record\<close>, for a record that is a dict.\<close>

definition format_record_lines :: "(string \<Rightarrow> string) \<Rightarrow>
    string \<Rightarrow> (string \<times> json) list \<Rightarrow> string list" where
  "format_record_lines esc model d =
     (let rec_id = dict_get d ''id'' (JStr ''?'');
          name = record_name esc d rec_id;
          g = group_fields esc d
      in [''# '' @ model @ '': '' @ str esc name @ '' (ID: '' @ str esc rec_id @ '')'' @ nl]
         @ (if basic_fields g \<noteq> []
            then ''## Basic Information'' # map (\<lambda>(key, val). field_line key (str esc val)) (basic_fields g)
            else [])
         @ (if relation_fields g \<noteq> []
            then (nl @ ''## Related Records'') # map (\<lambda>(key, text). field_line key text) (relation_fields g)
            else [])
         @ (if other_fields g \<noteq> []
            then (nl @ ''## Other Data'') # map (\<lambda>(key, text). field_line key text) (other_fields g)
            else []))"

text \<open>A record that is not a dict has no \<^verbatim>\<open>get\<close>: the first line of the function
  raises.\<close>

definition format_record :: "(string \<Rightarrow> string) \<Rightarrow>
    string \<Rightarrow> json \<Rightarrow> exn + string" where
  "format_record esc model record =
     (case record of
        JDict d \<Rightarrow> Inr (join nl (format_record_lines esc model d))
      | _ \<Rightarrow> Inl (no_attribute record ''get''))"

subsection \<open>\<^verbatim>\<open>format_records\<close>\<close>

text \<open>One round of the inner loop (lines 459 to 472): no line, or one.\<close>

definition records_field :: "(string \<Rightarrow> string) \<Rightarrow>
    string \<times> json \<Rightarrow> string list" where
  "records_field esc item =
     (let key = fst item; val = snd item in
      if key \<in> set [''id'', ''display_name'', ''name'', ''__last_update''] then []
      else if skip_value val then []
      else if is_many2one val then
        (case val of JList xs \<Rightarrow> [field_line key (many2one_text esc xs)] | _ \<Rightarrow> [])
      else
        (case val of
           JList xs \<Rightarrow> [field_line key (join '', '' (map (str esc) xs))]
         | _ \<Rightarrow> [field_line key (str esc val)]))"

text \<open>One round of the outer loop (lines 454 to 474).\<close>

definition records_entry :: "(string \<Rightarrow> string) \<Rightarrow>
    json \<Rightarrow> exn + string list" where
  "records_entry esc rec =
     (case rec of
        JDict d \<Rightarrow>
          (let rec_id = dict_get d ''id'' (JStr ''?'');
               name = record_name esc d rec_id
           in Inr ([''## '' @ str esc name @ '' (ID: '' @ str esc rec_id @ '')'']
                   @ concat (map (records_field esc) d) @ [[]]))
      | _ \<Rightarrow> Inl (no_attribute rec ''get''))"

fun records_entries :: "(string \<Rightarrow> string) \<Rightarrow>
    json list \<Rightarrow> exn + string list" where
  "records_entries esc [] = Inr []"
| "records_entries esc (rec # recs) =
     then_do (records_entry esc rec) (\<lambda>ls.
       then_do (records_entries esc recs) (\<lambda>rest. Inr (ls @ rest)))"

text \<open>
  \<^verbatim>\<open>format_records\<close> on any value. A list is the expected case. A non-empty dict or
  string has a length, and its first element is a string, which has no \<^verbatim>\<open>get\<close>; a
  number has no length.
\<close>

definition format_records :: "(string \<Rightarrow> string) \<Rightarrow>
    string \<Rightarrow> json \<Rightarrow> exn + string" where
  "format_records esc model records =
     (if \<not> truthy records then Inr (''No records found in '' @ model @ ''.'')
      else
        (case records of
           JList recs \<Rightarrow>
             then_do (records_entries esc recs) (\<lambda>body.
               Inr (join nl ((''# Found '' @ str_int (int (length recs)) @ '' records in ''
                              @ model @ nl) # body)))
         | JDict d \<Rightarrow> Inl (no_attribute (JStr []) ''get'')
         | JStr s \<Rightarrow> Inl (no_attribute (JStr []) ''get'')
         | _ \<Rightarrow> Inl (TypeError (''object of type '' @ quoted (type_name records)
                                 @ '' has no len()''))))"

section \<open>Tools and resources (server.py)\<close>

text \<open>
  A tool or a resource returns its text, or lets an exception through to its caller
  (\<^const>\<open>Inl\<close>). \<^verbatim>\<open>try: ... except OdooError as e: return f(str(e))\<close> turns one kind
  of exception into a returned string and lets every other one through;
  \<^verbatim>\<open>except Exception\<close> turns them all.
\<close>

definition except_OdooError :: "(string \<Rightarrow> 'a) \<Rightarrow> exn + 'a \<Rightarrow> exn + 'a" where
  "except_OdooError handler r =
     (case r of Inl (OdooError m) \<Rightarrow> Inr (handler m) | _ \<Rightarrow> r)"

definition except_Exception :: "(string \<Rightarrow> 'a) \<Rightarrow> exn + 'a \<Rightarrow> exn + 'a" where
  "except_Exception handler r =
     (case r of Inl e \<Rightarrow> Inr (handler (exn_str e)) | _ \<Rightarrow> r)"

text \<open>The two marks that open the messages of the writing tools, as UTF-8.\<close>

definition check_mark :: string where
  "check_mark = [CHR 0xE2, CHR 0x9C, CHR 0x85]"

definition cross_mark :: string where
  "cross_mark = [CHR 0xE2, CHR 0x9D, CHR 0x8C]"

subsection \<open>Resources\<close>

text \<open>
  \<^verbatim>\<open>json.dumps\<close> and \<^verbatim>\<open>int\<close> belong to Python, not to the repository: the resources
  take them as parameters (\<open>dumps\<close> for each way it is called, \<open>int_of\<close> with
  \<^const>\<open>None\<close> where \<^verbatim>\<open>int\<close> raises \<^verbatim>\<open>ValueError\<close>).
\<close>

definition resource_models :: "(string \<Rightarrow> string) \<Rightarrow>
    (json \<Rightarrow> string) \<Rightarrow> Settings \<Rightarrow> net \<Rightarrow> (exn + string) \<times> net" where
  "resource_models esc dumps settings n =
     (let client = get_client settings;
          (r, n') = list_models esc client n
      in (then_do r (\<lambda>models. Inr (dumps models)), n'))"

definition resource_model_fields :: "(string \<Rightarrow> string) \<Rightarrow>
    (json \<Rightarrow> string) \<Rightarrow> Settings \<Rightarrow> string \<Rightarrow> net
    \<Rightarrow> (exn + string) \<times> net" where
  "resource_model_fields esc dumps settings model_name n =
     (let client = get_client settings;
          (r, n') = get_fields esc client model_name n
      in (then_do r (\<lambda>fs. Inr (dumps fs)), n'))"

definition resource_record :: "(string \<Rightarrow> string) \<Rightarrow>
    (string \<Rightarrow> int option) \<Rightarrow> Settings \<Rightarrow> string \<Rightarrow> string \<Rightarrow> net
    \<Rightarrow> (exn + string) \<times> net" where
  "resource_record esc int_of settings model_name record_id n =
     (let client = get_client settings in
      case int_of record_id of
        None \<Rightarrow> (Inl (ValueError (''invalid literal for int() with base 10: ''
                                  @ repr_str esc record_id)), n)
      | Some i \<Rightarrow>
          (let (r, n') = read esc client model_name i None n
           in (then_do r (\<lambda>record. format_record esc model_name record), n')))"

definition resource_count :: "(string \<Rightarrow> string) \<Rightarrow>
    (json \<Rightarrow> string) \<Rightarrow> Settings \<Rightarrow> string \<Rightarrow> net
    \<Rightarrow> (exn + string) \<times> net" where
  "resource_count esc dumps settings model_name n =
     (let client = get_client settings;
          (r, n') = count esc client model_name (Some []) n
      in (then_do r (\<lambda>c. Inr (dumps (JDict [(''model'', JStr model_name), (''count'', c)]))),
          n'))"

subsection \<open>Tools\<close>

definition search_records :: "(string \<Rightarrow> string) \<Rightarrow>
    Settings \<Rightarrow> string \<Rightarrow> json list option \<Rightarrow> json list option
    \<Rightarrow> int \<Rightarrow> int \<Rightarrow> string option \<Rightarrow> net \<Rightarrow> (exn + string) \<times> net" where
  "search_records esc settings model domain fields' limit offset order n =
     (let client = get_client settings;
          (r, n') = search esc client model domain fields'
                      (min limit (max_records settings)) offset order n
      in (except_Exception (\<lambda>m. ''Unexpected error: '' @ m)
           (except_OdooError (\<lambda>m. ''Error searching '' @ model @ '': '' @ m)
             (then_do r (\<lambda>records.
                if \<not> truthy records
                then Inr (''No records found in '' @ model @ '' matching the criteria.'')
                else format_records esc model records))),
          n'))"

definition get_record :: "(string \<Rightarrow> string) \<Rightarrow>
    Settings \<Rightarrow> string \<Rightarrow> int \<Rightarrow> json list option \<Rightarrow> net
    \<Rightarrow> (exn + string) \<times> net" where
  "get_record esc settings model record_id fields' n =
     (let client = get_client settings;
          (r, n') = read esc client model record_id fields' n
      in (except_OdooError
            (\<lambda>m. ''Error reading '' @ model @ '' record '' @ str_int record_id @ '': '' @ m)
            (then_do r (\<lambda>record.
               if \<not> truthy record
               then Inr (''Record '' @ str_int record_id @ '' not found in '' @ model @ ''.'')
               else format_record esc model record)),
          n'))"

definition count_records :: "(string \<Rightarrow> string) \<Rightarrow>
    Settings \<Rightarrow> string \<Rightarrow> json list option \<Rightarrow> net
    \<Rightarrow> (exn + string) \<times> net" where
  "count_records esc settings model domain n =
     (let client = get_client settings;
          (r, n') = count esc client model domain n
      in (except_OdooError (\<lambda>m. ''Error counting '' @ model @ '': '' @ m)
            (then_do r (\<lambda>c.
               let domain_str = (if truthy (opt_list domain)
                                 then '' matching '' @ str esc (opt_list domain) else [])
               in Inr (''Found '' @ str esc c @ '' records in '' @ model @ domain_str @ ''.''))),
          n'))"

text \<open>One round of the loop of the tool \<^verbatim>\<open>list_models\<close> (lines 194 to 202).\<close>

definition model_line :: "(string \<Rightarrow> string) \<Rightarrow>
    json \<Rightarrow> exn + string" where
  "model_line esc m =
     then_do (py_get m ''can_read'' JNull) (\<lambda>can_read.
     then_do (py_get m ''can_create'' JNull) (\<lambda>can_create.
     then_do (py_get m ''can_write'' JNull) (\<lambda>can_write.
     then_do (py_get m ''can_delete'' JNull) (\<lambda>can_delete.
       let perms = (if truthy can_read then [''read''] else [])
                 @ (if truthy can_create then [''create''] else [])
                 @ (if truthy can_write then [''update''] else [])
                 @ (if truthy can_delete then [''delete''] else []);
           perm_str = (if perms \<noteq> [] then join '', '' perms else ''no permissions'')
       in then_do (py_subscript esc m ''model'') (\<lambda>name.
          then_do (py_get m ''name'' (JStr ''Unknown'')) (\<lambda>label.
            Inr (''- **'' @ str esc name @ ''** ('' @ str esc label @ ''): '' @ perm_str)))))))"

fun model_lines :: "(string \<Rightarrow> string) \<Rightarrow>
    json list \<Rightarrow> exn + string list" where
  "model_lines esc [] = Inr []"
| "model_lines esc (m # ms) =
     then_do (model_line esc m) (\<lambda>l.
       then_do (model_lines esc ms) (\<lambda>rest. Inr (l # rest)))"

text \<open>The tool \<^verbatim>\<open>list_models\<close> of server.py (the client has a method of the same
  name). Iterating over a non-empty dict or string yields strings, which have no
  \<^verbatim>\<open>get\<close>; a number cannot be iterated over.\<close>

definition list_models_tool :: "(string \<Rightarrow> string) \<Rightarrow>
    Settings \<Rightarrow> net \<Rightarrow> (exn + string) \<times> net" where
  "list_models_tool esc settings n =
     (let client = get_client settings;
          (r, n') = list_models esc client n
      in (except_OdooError (\<lambda>m. ''Error listing models: '' @ m)
            (then_do r (\<lambda>models.
               if \<not> truthy models
               then Inr ''No models are currently enabled for MCP access.''
               else
                 (case models of
                    JList ms \<Rightarrow>
                      then_do (model_lines esc ms) (\<lambda>ls.
                        Inr (join nl ((''# Available Models'' @ nl) # ls)))
                  | JDict d \<Rightarrow> Inl (no_attribute (JStr []) ''get'')
                  | JStr s \<Rightarrow> Inl (no_attribute (JStr []) ''get'')
                  | _ \<Rightarrow> Inl (TypeError (quoted (type_name models)
                                          @ '' object is not iterable''))))),
          n'))"

text \<open>
  \<^verbatim>\<open>get_model_fields\<close>: the rendering of the field list (lines 229 to 251: filtering
  by type, grouping, sorting, \<^verbatim>\<open>str.title\<close>) is the parameter \<open>render\<close>; the call of the
  client and the handler are as in the source.
\<close>

definition get_model_fields :: "(string \<Rightarrow> string) \<Rightarrow>
    (string \<Rightarrow> json \<Rightarrow> json list option \<Rightarrow> exn + string) \<Rightarrow> Settings
    \<Rightarrow> string \<Rightarrow> json list option \<Rightarrow> net \<Rightarrow> (exn + string) \<times> net" where
  "get_model_fields esc render settings model field_types n =
     (let client = get_client settings;
          (r, n') = get_fields esc client model n
      in (except_OdooError (\<lambda>m. ''Error getting fields for '' @ model @ '': '' @ m)
            (then_do r (\<lambda>fs. render model fs field_types)),
          n'))"

definition create_record :: "(string \<Rightarrow> string) \<Rightarrow>
    Settings \<Rightarrow> string \<Rightarrow> (string \<times> json) list \<Rightarrow> net
    \<Rightarrow> (exn + string) \<times> net" where
  "create_record esc settings model values n =
     (let client = get_client settings;
          (r, n') = create esc client model values n
      in (except_OdooError (\<lambda>m. cross_mark @ '' Error creating '' @ model @ '': '' @ m)
            (then_do r (\<lambda>record_id.
               Inr (check_mark @ '' Successfully created '' @ model @ '' record with ID ''
                    @ str esc record_id @ ''.''))),
          n'))"

definition update_record :: "(string \<Rightarrow> string) \<Rightarrow>
    Settings \<Rightarrow> string \<Rightarrow> int \<Rightarrow> (string \<times> json) list \<Rightarrow> net
    \<Rightarrow> (exn + string) \<times> net" where
  "update_record esc settings model record_id values n =
     (let client = get_client settings;
          (r, n') = write esc client model record_id values n
      in (except_OdooError
            (\<lambda>m. cross_mark @ '' Error updating '' @ model @ '' record '' @ str_int record_id
                  @ '': '' @ m)
            (then_do r (\<lambda>_.
               Inr (check_mark @ '' Successfully updated '' @ model @ '' record ''
                    @ str_int record_id @ ''. Fields: '' @ join '', '' (map fst values)))),
          n'))"

definition delete_record :: "(string \<Rightarrow> string) \<Rightarrow>
    Settings \<Rightarrow> string \<Rightarrow> int \<Rightarrow> net \<Rightarrow> (exn + string) \<times> net" where
  "delete_record esc settings model record_id n =
     (let client = get_client settings;
          (r, n') = unlink esc client model record_id n
      in (except_OdooError
            (\<lambda>m. cross_mark @ '' Error deleting '' @ model @ '' record '' @ str_int record_id
                  @ '': '' @ m)
            (then_do r (\<lambda>_.
               Inr (check_mark @ '' Successfully deleted '' @ model @ '' record ''
                    @ str_int record_id @ ''.''))),
          n'))"

definition execute_method :: "(string \<Rightarrow> string) \<Rightarrow>
    (json \<Rightarrow> string) \<Rightarrow> Settings \<Rightarrow> string \<Rightarrow> string
    \<Rightarrow> json list option \<Rightarrow> json list option \<Rightarrow> (string \<times> json) list option \<Rightarrow> net
    \<Rightarrow> (exn + string) \<times> net" where
  "execute_method esc dumps settings model method record_ids args kwargs n =
     (let client = get_client settings;
          (r, n') = execute esc client model method record_ids args kwargs n
      in (except_OdooError
            (\<lambda>m. cross_mark @ '' Error executing '' @ method @ '' on '' @ model @ '': '' @ m)
            (then_do r (\<lambda>result.
               if result = JNull
               then Inr (check_mark @ '' Method '' @ method @ '' executed successfully on ''
                         @ model @ ''.'')
               else Inr (check_mark @ '' Method '' @ method @ '' result: '' @ dumps result))),
          n'))"

text \<open>\<^verbatim>\<open>get_record_name\<close> returns whatever the record holds under
  \<^verbatim>\<open>display_name\<close>, so its result is a value.\<close>

definition get_record_name :: "(string \<Rightarrow> string) \<Rightarrow>
    Settings \<Rightarrow> string \<Rightarrow> int \<Rightarrow> net \<Rightarrow> (exn + json) \<times> net" where
  "get_record_name esc settings model record_id n =
     (let client = get_client settings;
          (r, n') = read esc client model record_id (Some [JStr ''display_name'']) n
      in (except_OdooError (\<lambda>m. JStr (''Record not found: '' @ m))
            (then_do r (\<lambda>record.
               py_get record ''display_name'' (JStr (model @ '','' @ str_int record_id)))),
          n'))"

text \<open>\<^verbatim>\<open>search_and_read_one\<close> formats \<^verbatim>\<open>records[0]\<close>: the first element of a list; a
  dict has no key 0; the first character of a string is a string, which
  \<^const>\<open>format_record\<close> refuses; a number has no elements.\<close>

definition search_and_read_one :: "(string \<Rightarrow> string) \<Rightarrow>
    Settings \<Rightarrow> string \<Rightarrow> json list \<Rightarrow> json list option \<Rightarrow> net
    \<Rightarrow> (exn + string) \<times> net" where
  "search_and_read_one esc settings model domain fields' n =
     (let client = get_client settings;
          (r, n') = search esc client model (Some domain) fields' 1 0 None n
      in (except_OdooError (\<lambda>m. ''Error: '' @ m)
            (then_do r (\<lambda>records.
               if \<not> truthy records
               then Inr (''No record found in '' @ model @ '' matching '' @ str esc (JList domain)
                         @ ''.'')
               else
                 (case records of
                    JList recs \<Rightarrow>
                      (case recs of
                         x # _ \<Rightarrow> format_record esc model x
                       | [] \<Rightarrow> Inl (IndexError ''list index out of range''))
                  | JDict d \<Rightarrow> Inl (KeyError ''0'')
                  | JStr s \<Rightarrow> Inl (no_attribute (JStr []) ''get'')
                  | _ \<Rightarrow> Inl (TypeError (quoted (type_name records)
                                          @ '' object is not subscriptable''))))),
          n'))"

section \<open>Observations and sample inputs\<close>

text \<open>The \<^verbatim>\<open>params\<close> mapping of a JSON-RPC envelope, and that of the request sent
  last.\<close>

definition envelope_params :: "json \<Rightarrow> (string \<times> json) list" where
  "envelope_params body =
     (case body of
        JDict e \<Rightarrow> (case map_of e ''params'' of Some (JDict ps) \<Rightarrow> ps | _ \<Rightarrow> [])
      | _ \<Rightarrow> [])"

definition sent_params :: "net \<Rightarrow> (string \<times> json) list" where
  "sent_params n = (if sent n = [] then [] else envelope_params (snd (last (sent n))))"

text \<open>A result lacks an operation's sub-key: \<^verbatim>\<open>data\<close> is absent, or is a mapping
  without the key.\<close>

definition lacks_sub_key :: "(string \<times> json) list \<Rightarrow> string \<Rightarrow> bool" where
  "lacks_sub_key res key =
     (case map_of res ''data'' of
        None \<Rightarrow> True
      | Some (JDict dd) \<Rightarrow> map_of dd key = None
      | Some _ \<Rightarrow> False)"

text \<open>A backend that gives the same answer to every request, with nothing sent yet.\<close>

definition backend :: "http_outcome \<Rightarrow> net" where
  "backend r = \<lparr>respond = (\<lambda>u body. r), sent = []\<rparr>"

text \<open>Three profiles: an API key next to credentials, credentials alone, nothing.\<close>

definition key_settings :: Settings where
  "key_settings =
     \<lparr>Settings.url = ''http://localhost:8069'', db = None, api_key = Some ''K'',
      user = Some ''admin'', password = Some ''pw'', mcp_transport = ''stdio'',
      mcp_host = ''localhost'', mcp_port = 8000, max_records = 100, timeout = 30\<rparr>"

definition login_settings :: Settings where
  "login_settings = key_settings\<lparr>Settings.api_key := None\<rparr>"

definition anonymous_settings :: Settings where
  "anonymous_settings =
     key_settings\<lparr>Settings.api_key := None, Settings.user := None, Settings.password := None\<rparr>"

text \<open>The record of the specification's formatting example.\<close>

definition acme :: "(string \<times> json) list" where
  "acme =
     [(''id'', JInt 5), (''name'', JStr ''Acme''),
      (''partner_id'', JList [JInt 3, JStr ''Bob'']),
      (''tag_ids'', JList [JInt 1, JInt 2, JInt 3, JInt 4, JInt 5, JInt 6])]"

text \<open>Stand-ins for the parameters in examples: every non-ASCII character printable,
  so that a run is kept as it is; a reader of plain decimal literals for \<^verbatim>\<open>int\<close>; a
  rendering of a field list by its heading alone.\<close>

definition keep_run :: "string \<Rightarrow> string" where
  "keep_run run = run"

fun decimal_value :: "nat \<Rightarrow> string \<Rightarrow> nat option" where
  "decimal_value acc [] = Some acc"
| "decimal_value acc (c # cs) =
     (if 48 \<le> (of_char c :: nat) \<and> (of_char c :: nat) \<le> 57
      then decimal_value (10 * acc + (of_char c - 48)) cs
      else None)"

definition plain_int :: "string \<Rightarrow> int option" where
  "plain_int s =
     (case s of
        [] \<Rightarrow> None
      | c # cs \<Rightarrow>
          if c = CHR ''-''
          then (if cs = [] then None else map_option (\<lambda>v. - int v) (decimal_value 0 cs))
          else map_option int (decimal_value 0 s))"

definition plain_render :: "string \<Rightarrow> json \<Rightarrow> json list option \<Rightarrow> exn + string" where
  "plain_render model fs field_types = Inr (''# Fields for '' @ model)"


section \<open>Properties\<close>

subsection \<open>What a request sends and returns\<close>

lemma sent_request:
  "sent (snd (request esc self ep params n))
     = sent n @ [(url self @ ''/mcp/'' @ ep, payload (add_authentication self params))]"
  by (simp add: request_def post_def Let_def split: prod.splits)

lemma fst_request:
  "fst (request esc self ep params n) =
     (case respond n (url self @ ''/mcp/'' @ ep) (payload (add_authentication self params)) of
        RequestError text \<Rightarrow> Inl (OdooError (''Connection error: '' @ text))
      | HTTPStatusError code body \<Rightarrow>
          Inl (OdooError (''HTTP error '' @ str_int code @ '': '' @ body))
      | NotJSON text \<Rightarrow> Inl (ValueError text)
      | Reply result \<Rightarrow> read_reply esc result)"
  by (simp add: request_def post_def Let_def split: prod.splits)

lemma sent_params_request:
  "sent_params (snd (request esc self ep params n)) = add_authentication self params"
  by (simp add: sent_params_def sent_request envelope_params_def payload_def)

lemma str_JStr: "str esc (JStr s) = s"
  by (simp add: str_def)

lemma str_JInt: "str esc (JInt i) = str_int i"
  by (simp add: str_def)

lemma digits:
  "str_int 1 = ''1''" "str_int 2 = ''2''" "str_int 3 = ''3''" "str_int 4 = ''4''"
  "str_int 5 = ''5''" "str_int 6 = ''6''"
  by code_simp+

lemma read_reply_result:
  assumes "map_of reply ''error'' = None" and "map_of reply ''result'' = Some res"
  shows "read_reply esc (JDict reply) = Inr res"
  using assms by (simp add: read_reply_def py_in_def py_get_def dict_get_def)

lemma get_data_default:
  assumes "lacks_sub_key res key"
  shows "get_data (JDict res) key dflt = Inr dflt"
  using assms
  by (auto simp add: get_data_def lacks_sub_key_def py_get_def dict_get_def
      split: option.splits json.splits)

lemma raise_if_error_pass:
  assumes "\<not> truthy (dict_get res ''error'' JNull)"
  shows "raise_if_error esc (JDict res) = Inr ()"
  using assms by (simp add: raise_if_error_def py_get_def)

lemmas sample_defs = key_settings_def login_settings_def anonymous_settings_def get_client_def
  init_def or_opt_def truthy_opt_def rstrip_def backend_def

subsection \<open>Authentication\<close>

text \<open>
  C5. Every request is sent, to \<^verbatim>\<open>{url}/mcp/{endpoint}\<close>, as the JSON-RPC envelope whose
  \<^verbatim>\<open>params\<close> are the caller's arguments and the authentication of one mode. With a
  non-empty API key the only key written is \<^verbatim>\<open>api_key\<close>, whatever the user name and
  password are. Without one, and with a non-empty user name and password, the keys written
  are \<^verbatim>\<open>user\<close> and \<^verbatim>\<open>password\<close>. Otherwise the arguments go out as they came, and the
  request is sent all the same.
\<close>

theorem auth_selector:
  "sent (snd (request esc self ep params n))
     = sent n @ [(url self @ ''/mcp/'' @ ep,
                  JDict [(''jsonrpc'', JStr ''2.0''), (''method'', JStr ''call''),
                         (''params'', JDict (sent_params (snd (request esc self ep params n)))),
                         (''id'', JInt 1)])]
   \<and> (\<forall>k. api_key self = Some k \<and> k \<noteq> [] \<longrightarrow>
          sent_params (snd (request esc self ep params n))
            = AList.update ''api_key'' (JStr k) params
          \<and> map_of (sent_params (snd (request esc self ep params n)))
            = (map_of params)(''api_key'' \<mapsto> JStr k))
   \<and> (\<forall>u p. \<not> truthy_opt (api_key self) \<and> user self = Some u \<and> u \<noteq> []
            \<and> password self = Some p \<and> p \<noteq> [] \<longrightarrow>
          sent_params (snd (request esc self ep params n))
            = AList.update ''password'' (JStr p) (AList.update ''user'' (JStr u) params)
          \<and> map_of (sent_params (snd (request esc self ep params n)))
            = (map_of params)(''user'' \<mapsto> JStr u, ''password'' \<mapsto> JStr p))
   \<and> (\<not> truthy_opt (api_key self) \<and> \<not> (truthy_opt (user self) \<and> truthy_opt (password self)) \<longrightarrow>
          sent_params (snd (request esc self ep params n)) = params)"
  by (simp add: sent_request sent_params_request payload_def add_authentication_def
      truthy_opt_def AList.update_conv')

theorem auth_selector_witness:
  "api_key (get_client key_settings) = Some ''K'' \<and> ''K'' \<noteq> []
   \<and> sent (snd (request keep_run (get_client key_settings) ''models''
                  [(''model'', JStr ''res.partner'')] (backend (Reply (JDict [])))))
       = [(''http://localhost:8069/mcp/models'',
           JDict [(''jsonrpc'', JStr ''2.0''), (''method'', JStr ''call''),
                  (''params'', JDict [(''model'', JStr ''res.partner''), (''api_key'', JStr ''K'')]),
                  (''id'', JInt 1)])]
   \<and> \<not> truthy_opt (api_key (get_client login_settings))
   \<and> user (get_client login_settings) = Some ''admin''
   \<and> password (get_client login_settings) = Some ''pw''
   \<and> sent (snd (request keep_run (get_client login_settings) ''models''
                  [(''model'', JStr ''res.partner'')] (backend (Reply (JDict [])))))
       = [(''http://localhost:8069/mcp/models'',
           JDict [(''jsonrpc'', JStr ''2.0''), (''method'', JStr ''call''),
                  (''params'', JDict [(''model'', JStr ''res.partner''),
                                      (''user'', JStr ''admin''), (''password'', JStr ''pw'')]),
                  (''id'', JInt 1)])]
   \<and> \<not> truthy_opt (api_key (get_client anonymous_settings))
   \<and> \<not> (truthy_opt (user (get_client anonymous_settings))
         \<and> truthy_opt (password (get_client anonymous_settings)))
   \<and> sent (snd (request keep_run (get_client anonymous_settings) ''models''
                  [(''model'', JStr ''res.partner'')] (backend (Reply (JDict [])))))
       = [(''http://localhost:8069/mcp/models'',
           JDict [(''jsonrpc'', JStr ''2.0''), (''method'', JStr ''call''),
                  (''params'', JDict [(''model'', JStr ''res.partner'')]),
                  (''id'', JInt 1)])]"
  using
    auth_selector [of keep_run "get_client key_settings" "''models''"
      "[(''model'', JStr ''res.partner'')]" "backend (Reply (JDict []))"]
    auth_selector [of keep_run "get_client login_settings" "''models''"
      "[(''model'', JStr ''res.partner'')]" "backend (Reply (JDict []))"]
    auth_selector [of keep_run "get_client anonymous_settings" "''models''"
      "[(''model'', JStr ''res.partner'')]" "backend (Reply (JDict []))"]
  by (simp add: sample_defs)

text \<open>
  C2, as amended. The request sent is the envelope of the arguments with the authentication
  written in. Each authentication field that the profile's mode writes is sent with the
  profile's own value, whatever the caller supplied under that key: \<^verbatim>\<open>api_key\<close> when
  the API key is non-empty; \<^verbatim>\<open>user\<close> and \<^verbatim>\<open>password\<close> when there is no API key and
  both are non-empty. Every other key, also one named \<^verbatim>\<open>api_key\<close>, \<^verbatim>\<open>user\<close> or
  \<^verbatim>\<open>password\<close> that the mode does not write, is sent as the caller supplied it; a
  profile with neither an API key nor both credentials writes nothing, so that every key
  then is the caller's.
\<close>

theorem injected_auth_wins:
  "sent (snd (request esc self ep params n))
     = sent n @ [(url self @ ''/mcp/'' @ ep,
                  JDict [(''jsonrpc'', JStr ''2.0''), (''method'', JStr ''call''),
                         (''params'', JDict (sent_params (snd (request esc self ep params n)))),
                         (''id'', JInt 1)])]
   \<and> (\<forall>k. api_key self = Some k \<and> k \<noteq> [] \<longrightarrow>
       map_of (sent_params (snd (request esc self ep params n))) ''api_key'' = Some (JStr k)
       \<and> (\<forall>key. key \<noteq> ''api_key'' \<longrightarrow>
             map_of (sent_params (snd (request esc self ep params n))) key = map_of params key))
   \<and> (\<forall>u p. \<not> truthy_opt (api_key self) \<and> user self = Some u \<and> u \<noteq> []
            \<and> password self = Some p \<and> p \<noteq> [] \<longrightarrow>
       map_of (sent_params (snd (request esc self ep params n))) ''user'' = Some (JStr u)
       \<and> map_of (sent_params (snd (request esc self ep params n))) ''password'' = Some (JStr p)
       \<and> (\<forall>key. key \<noteq> ''user'' \<and> key \<noteq> ''password'' \<longrightarrow>
             map_of (sent_params (snd (request esc self ep params n))) key = map_of params key))
   \<and> (\<not> truthy_opt (api_key self) \<and> \<not> (truthy_opt (user self) \<and> truthy_opt (password self)) \<longrightarrow>
       sent_params (snd (request esc self ep params n)) = params
       \<and> (\<forall>key. map_of (sent_params (snd (request esc self ep params n))) key
                = map_of params key))"
  by (simp add: sent_request sent_params_request payload_def add_authentication_def
      truthy_opt_def AList.update_conv')

theorem injected_auth_wins_witness:
  "api_key (get_client key_settings) = Some ''K'' \<and> ''K'' \<noteq> []
   \<and> map_of (sent_params (snd (request keep_run (get_client key_settings) ''search''
         [(''api_key'', JStr ''forged''), (''user'', JStr ''mallory'')]
         (backend (Reply (JDict [])))))) ''api_key'' = Some (JStr ''K'')
   \<and> ''user'' \<noteq> ''api_key''
   \<and> map_of (sent_params (snd (request keep_run (get_client key_settings) ''search''
         [(''api_key'', JStr ''forged''), (''user'', JStr ''mallory'')]
         (backend (Reply (JDict [])))))) ''user'' = Some (JStr ''mallory'')
   \<and> \<not> truthy_opt (api_key (get_client login_settings))
   \<and> user (get_client login_settings) = Some ''admin''
   \<and> password (get_client login_settings) = Some ''pw''
   \<and> map_of (sent_params (snd (request keep_run (get_client login_settings) ''search''
         [(''api_key'', JStr ''forged''), (''user'', JStr ''mallory'')]
         (backend (Reply (JDict [])))))) ''user'' = Some (JStr ''admin'')
   \<and> map_of (sent_params (snd (request keep_run (get_client login_settings) ''search''
         [(''api_key'', JStr ''forged''), (''user'', JStr ''mallory'')]
         (backend (Reply (JDict [])))))) ''password'' = Some (JStr ''pw'')
   \<and> map_of (sent_params (snd (request keep_run (get_client login_settings) ''search''
         [(''api_key'', JStr ''forged''), (''user'', JStr ''mallory'')]
         (backend (Reply (JDict [])))))) ''api_key'' = Some (JStr ''forged'')
   \<and> \<not> truthy_opt (api_key (get_client anonymous_settings))
   \<and> \<not> (truthy_opt (user (get_client anonymous_settings))
         \<and> truthy_opt (password (get_client anonymous_settings)))
   \<and> sent_params (snd (request keep_run (get_client anonymous_settings) ''search''
         [(''api_key'', JStr ''forged''), (''user'', JStr ''mallory'')]
         (backend (Reply (JDict [])))))
       = [(''api_key'', JStr ''forged''), (''user'', JStr ''mallory'')]
   \<and> sent (snd (request keep_run (get_client anonymous_settings) ''search''
         [(''api_key'', JStr ''forged''), (''user'', JStr ''mallory'')]
         (backend (Reply (JDict [])))))
       = [(''http://localhost:8069/mcp/search'',
           JDict [(''jsonrpc'', JStr ''2.0''), (''method'', JStr ''call''),
                  (''params'', JDict [(''api_key'', JStr ''forged''), (''user'', JStr ''mallory'')]),
                  (''id'', JInt 1)])]"
  using
    injected_auth_wins [of keep_run "get_client key_settings" "''search''"
      "[(''api_key'', JStr ''forged''), (''user'', JStr ''mallory'')]" "backend (Reply (JDict []))"]
    injected_auth_wins [of keep_run "get_client login_settings" "''search''"
      "[(''api_key'', JStr ''forged''), (''user'', JStr ''mallory'')]" "backend (Reply (JDict []))"]
    injected_auth_wins [of keep_run "get_client anonymous_settings" "''search''"
      "[(''api_key'', JStr ''forged''), (''user'', JStr ''mallory'')]" "backend (Reply (JDict []))"]
  by (simp add: sample_defs)

text \<open>
  C2 as stated fails: with an API key in the profile a caller's \<^verbatim>\<open>user\<close> goes out
  unchanged, next to the profile's key and in place of the profile's user name; with an
  anonymous profile a caller's \<^verbatim>\<open>api_key\<close> goes out as the only authentication.
\<close>

theorem forged_arguments_counterexample:
  "user (get_client key_settings) = Some ''admin''
   \<and> sent (snd (request keep_run (get_client key_settings) ''search'' [(''user'', JStr ''mallory'')]
                  (backend (Reply (JDict [])))))
       = [(''http://localhost:8069/mcp/search'',
           payload [(''user'', JStr ''mallory''), (''api_key'', JStr ''K'')])]
   \<and> sent (snd (request keep_run (get_client anonymous_settings) ''search''
                  [(''api_key'', JStr ''forged'')] (backend (Reply (JDict [])))))
       = [(''http://localhost:8069/mcp/search'', payload [(''api_key'', JStr ''forged'')])]"
  by (simp add: sent_request sample_defs add_authentication_def)

subsection \<open>Replies\<close>

text \<open>
  C1, as amended. A reply that is a mapping with neither a top-level \<^verbatim>\<open>result\<close> nor a
  top-level \<^verbatim>\<open>error\<close> raises nothing: its interpretation returns the empty mapping as
  the result.
\<close>

theorem reply_without_result_or_error:
  assumes "map_of reply ''result'' = None" and "map_of reply ''error'' = None"
  shows "read_reply esc (JDict reply) = Inr (JDict [])"
  using assms by (simp add: read_reply_def py_in_def py_get_def dict_get_def)

theorem reply_without_result_or_error_witness:
  "map_of [(''jsonrpc'', JStr ''2.0'')] ''result'' = None
   \<and> map_of [(''jsonrpc'', JStr ''2.0'')] ''error'' = None
   \<and> read_reply keep_run (JDict [(''jsonrpc'', JStr ''2.0'')]) = Inr (JDict [])"
  using reply_without_result_or_error [of "[(''jsonrpc'', JStr ''2.0'')]" keep_run] by simp

text \<open>
  C1 as stated fails: on the reply \<^verbatim>\<open>{}\<close> the request returns the empty mapping, and
  \<^verbatim>\<open>list_models\<close> returns the empty list.
\<close>

theorem empty_reply_counterexample:
  "fst (request keep_run (get_client anonymous_settings) ''models'' [] (backend (Reply (JDict []))))
     = Inr (JDict [])
   \<and> fst (list_models keep_run (get_client anonymous_settings) (backend (Reply (JDict []))))
     = Inr (JList [])"
  by (simp add: fst_request list_models_def sample_defs read_reply_def py_in_def py_get_def
      dict_get_def raise_if_error_def get_data_def case_prod_beta)

text \<open>
  C4, as amended. A reply that is a mapping with a top-level \<^verbatim>\<open>error\<close> raises
  \<^verbatim>\<open>OdooError\<close> with the message \<^verbatim>\<open>Odoo error: \<close> followed by: the text of
  \<^verbatim>\<open>error.data.message\<close> when the error is a mapping whose \<^verbatim>\<open>data\<close> is a mapping
  with that field; the text of the whole error object when the error is not a mapping,
  or has no \<^verbatim>\<open>data\<close>, or its \<^verbatim>\<open>data\<close> is a mapping without \<^verbatim>\<open>message\<close>.
\<close>

theorem error_reply_raises:
  assumes "map_of reply ''error'' = Some err"
  shows "((\<forall>d. err \<noteq> JDict d) \<longrightarrow>
            read_reply esc (JDict reply) = Inl (OdooError (''Odoo error: '' @ str esc err)))
       \<and> (\<forall>d. err = JDict d \<and> map_of d ''data'' = None \<longrightarrow>
            read_reply esc (JDict reply) = Inl (OdooError (''Odoo error: '' @ str esc err)))
       \<and> (\<forall>d dd. err = JDict d \<and> map_of d ''data'' = Some (JDict dd)
               \<and> map_of dd ''message'' = None \<longrightarrow>
            read_reply esc (JDict reply) = Inl (OdooError (''Odoo error: '' @ str esc err)))
       \<and> (\<forall>d dd m. err = JDict d \<and> map_of d ''data'' = Some (JDict dd)
               \<and> map_of dd ''message'' = Some m \<longrightarrow>
            read_reply esc (JDict reply) = Inl (OdooError (''Odoo error: '' @ str esc m)))"
  using assms
  by (auto simp add: read_reply_def py_in_def py_subscript_def py_get_def dict_get_def str_JStr
      split: json.splits)

theorem error_reply_raises_witness:
  "map_of [(''error'', JStr ''bad call'')] ''error'' = Some (JStr ''bad call'')
   \<and> read_reply keep_run (JDict [(''error'', JStr ''bad call'')]) = Inl (OdooError ''Odoo error: bad call'')
   \<and> map_of [(''error'', JDict [(''code'', JInt 200)])] ''error'' = Some (JDict [(''code'', JInt 200)])
   \<and> map_of [(''code'', JInt 200)] ''data'' = None
   \<and> read_reply keep_run (JDict [(''error'', JDict [(''code'', JInt 200)])])
       = Inl (OdooError (''Odoo error: '' @ str keep_run (JDict [(''code'', JInt 200)])))
   \<and> map_of [(''error'', JDict [(''data'', JDict [(''debug'', JNull)])])] ''error''
       = Some (JDict [(''data'', JDict [(''debug'', JNull)])])
   \<and> map_of [(''data'', JDict [(''debug'', JNull)])] ''data'' = Some (JDict [(''debug'', JNull)])
   \<and> map_of [(''debug'', JNull)] ''message'' = None
   \<and> read_reply keep_run (JDict [(''error'', JDict [(''data'', JDict [(''debug'', JNull)])])])
       = Inl (OdooError (''Odoo error: '' @ str keep_run (JDict [(''data'', JDict [(''debug'', JNull)])])))
   \<and> map_of [(''error'', JDict [(''data'', JDict [(''message'', JStr ''boom'')])])] ''error''
       = Some (JDict [(''data'', JDict [(''message'', JStr ''boom'')])])
   \<and> map_of [(''data'', JDict [(''message'', JStr ''boom'')])] ''data''
       = Some (JDict [(''message'', JStr ''boom'')])
   \<and> map_of [(''message'', JStr ''boom'')] ''message'' = Some (JStr ''boom'')
   \<and> read_reply keep_run (JDict [(''error'', JDict [(''data'', JDict [(''message'', JStr ''boom'')])])])
       = Inl (OdooError ''Odoo error: boom'')"
  using
    error_reply_raises [of "[(''error'', JStr ''bad call'')]" "JStr ''bad call''" keep_run]
    error_reply_raises [of "[(''error'', JDict [(''code'', JInt 200)])]"
      "JDict [(''code'', JInt 200)]" keep_run]
    error_reply_raises [of "[(''error'', JDict [(''data'', JDict [(''debug'', JNull)])])]"
      "JDict [(''data'', JDict [(''debug'', JNull)])]" keep_run]
    error_reply_raises [of "[(''error'', JDict [(''data'', JDict [(''message'', JStr ''boom'')])])]"
      "JDict [(''data'', JDict [(''message'', JStr ''boom'')])]" keep_run]
  by (simp add: str_JStr)

text \<open>
  C4 as stated fails: the message of the specification's example is
  \<^verbatim>\<open>Odoo error: boom\<close>, not \<^verbatim>\<open>boom\<close>.
\<close>

theorem error_message_counterexample:
  "fst (request keep_run (get_client anonymous_settings) ''models'' []
         (backend (Reply (JDict [(''error'',
            JDict [(''data'', JDict [(''message'', JStr ''boom'')])])]))))
     = Inl (OdooError ''Odoo error: boom'')
   \<and> ''Odoo error: boom'' \<noteq> ''boom''"
  by (simp add: fst_request sample_defs read_reply_def py_in_def py_subscript_def py_get_def
      dict_get_def str_def)

lemma soft_error_raises:
  assumes "\<forall>u body. respond n u body = Reply (JDict reply)"
    and "map_of reply ''error'' = None"
    and "map_of reply ''result'' = Some (JDict res)"
    and "truthy (dict_get res ''error'' JNull)"
  shows "fst (list_models esc self n) = Inl (OdooError (str esc (dict_get res ''message'' (JStr ''Unknown error''))))"
    and "fst (get_fields esc self model n) = Inl (OdooError (str esc (dict_get res ''message'' (JStr ''Unknown error''))))"
    and "fst (search esc self model domain fields' limit offset order n)
           = Inl (OdooError (str esc (dict_get res ''message'' (JStr ''Unknown error''))))"
    and "fst (read esc self model record_id fields' n)
           = Inl (OdooError (str esc (dict_get res ''message'' (JStr ''Unknown error''))))"
    and "fst (count esc self model domain n) = Inl (OdooError (str esc (dict_get res ''message'' (JStr ''Unknown error''))))"
    and "fst (create esc self model values n) = Inl (OdooError (str esc (dict_get res ''message'' (JStr ''Unknown error''))))"
    and "fst (write esc self model record_id values n)
           = Inl (OdooError (str esc (dict_get res ''message'' (JStr ''Unknown error''))))"
    and "fst (unlink esc self model record_id n) = Inl (OdooError (str esc (dict_get res ''message'' (JStr ''Unknown error''))))"
    and "fst (execute esc self model method record_ids args kwargs n)
           = Inl (OdooError (str esc (dict_get res ''message'' (JStr ''Unknown error''))))"
proof -
  have req: "fst (request esc self ep ps n) = Inr (JDict res)" for ep ps
    using assms(1) read_reply_result [OF assms(2) assms(3)] by (simp add: fst_request)
  have err: "raise_if_error esc (JDict res)
      = Inl (OdooError (str esc (dict_get res ''message'' (JStr ''Unknown error''))))"
    using assms(4) by (simp add: raise_if_error_def py_get_def)
  show "fst (list_models esc self n) = Inl (OdooError (str esc (dict_get res ''message'' (JStr ''Unknown error''))))"
    and "fst (get_fields esc self model n) = Inl (OdooError (str esc (dict_get res ''message'' (JStr ''Unknown error''))))"
    and "fst (search esc self model domain fields' limit offset order n)
           = Inl (OdooError (str esc (dict_get res ''message'' (JStr ''Unknown error''))))"
    and "fst (read esc self model record_id fields' n)
           = Inl (OdooError (str esc (dict_get res ''message'' (JStr ''Unknown error''))))"
    and "fst (count esc self model domain n) = Inl (OdooError (str esc (dict_get res ''message'' (JStr ''Unknown error''))))"
    and "fst (create esc self model values n) = Inl (OdooError (str esc (dict_get res ''message'' (JStr ''Unknown error''))))"
    and "fst (write esc self model record_id values n)
           = Inl (OdooError (str esc (dict_get res ''message'' (JStr ''Unknown error''))))"
    and "fst (unlink esc self model record_id n) = Inl (OdooError (str esc (dict_get res ''message'' (JStr ''Unknown error''))))"
    and "fst (execute esc self model method record_ids args kwargs n)
           = Inl (OdooError (str esc (dict_get res ''message'' (JStr ''Unknown error''))))"
    by (simp_all add: search_def count_def read_def create_def list_models_def get_fields_def
        write_def unlink_def execute_def case_prod_beta req err)
qed

text \<open>
  C3 fails on \<^verbatim>\<open>get_server_info\<close>: a result that carries a true \<^verbatim>\<open>error\<close> flag is
  returned as it is, where \<^verbatim>\<open>list_models\<close> raises \<^verbatim>\<open>OdooError\<close> with the result's
  message on the same reply.
\<close>

theorem get_server_info_soft_error:
  "fst (get_server_info keep_run (get_client anonymous_settings)
         (backend (Reply (JDict [(''result'',
            JDict [(''error'', JBool True), (''message'', JStr ''nope'')])]))))
     = Inr (JDict [(''error'', JBool True), (''message'', JStr ''nope'')])
   \<and> fst (list_models keep_run (get_client anonymous_settings)
         (backend (Reply (JDict [(''result'',
            JDict [(''error'', JBool True), (''message'', JStr ''nope'')])]))))
     = Inl (OdooError ''nope'')"
  by (simp add: get_server_info_def list_models_def fst_request sample_defs read_reply_def
      py_in_def py_get_def dict_get_def raise_if_error_def get_data_def case_prod_beta str_def)

text \<open>
  C7, as amended. When the reply is a mapping without \<^verbatim>\<open>error\<close>, its \<^verbatim>\<open>result\<close> is a
  mapping without a true \<^verbatim>\<open>error\<close> flag, and in it \<^verbatim>\<open>data\<close> is absent or is a
  mapping without the operation's sub-key, the operation returns its default: the empty
  list for \<^verbatim>\<open>search\<close>, 0 for \<^verbatim>\<open>count\<close>, the empty mapping for \<^verbatim>\<open>read\<close>, None for
  \<^verbatim>\<open>create\<close>; also the empty list for \<^verbatim>\<open>list_models\<close> and \<^verbatim>\<open>get_fields\<close>, and None
  for \<^verbatim>\<open>execute\<close>.
\<close>

theorem missing_sub_key_defaults:
  assumes "\<forall>u body. respond n u body = Reply (JDict reply)"
    and "map_of reply ''error'' = None"
    and "map_of reply ''result'' = Some (JDict res)"
    and "\<not> truthy (dict_get res ''error'' JNull)"
  shows "(lacks_sub_key res ''records'' \<longrightarrow>
            fst (search esc self model domain fields' limit offset order n) = Inr (JList []))
       \<and> (lacks_sub_key res ''count'' \<longrightarrow> fst (count esc self model domain n) = Inr (JInt 0))
       \<and> (lacks_sub_key res ''record'' \<longrightarrow>
            fst (read esc self model record_id fields' n) = Inr (JDict []))
       \<and> (lacks_sub_key res ''id'' \<longrightarrow> fst (create esc self model values n) = Inr JNull)
       \<and> (lacks_sub_key res ''models'' \<longrightarrow> fst (list_models esc self n) = Inr (JList []))
       \<and> (lacks_sub_key res ''fields'' \<longrightarrow> fst (get_fields esc self model n) = Inr (JList []))
       \<and> (lacks_sub_key res ''result'' \<longrightarrow>
            fst (execute esc self model method record_ids args kwargs n) = Inr JNull)"
proof -
  have req: "fst (request esc self ep ps n) = Inr (JDict res)" for ep ps
    using assms(1) read_reply_result [OF assms(2) assms(3)] by (simp add: fst_request)
  note pass = raise_if_error_pass [OF assms(4)]
  show ?thesis
    by (simp add: search_def count_def read_def create_def list_models_def get_fields_def
        execute_def case_prod_beta req pass get_data_default)
qed

theorem missing_sub_key_defaults_witness:
  "(\<forall>u body. respond (backend (Reply (JDict [(''result'', JDict [(''data'', JDict [])])]))) u body
        = Reply (JDict [(''result'', JDict [(''data'', JDict [])])]))
   \<and> map_of [(''result'', JDict [(''data'', JDict [])])] ''error'' = None
   \<and> map_of [(''result'', JDict [(''data'', JDict [])])] ''result'' = Some (JDict [(''data'', JDict [])])
   \<and> \<not> truthy (dict_get [(''data'', JDict [])] ''error'' JNull)
   \<and> lacks_sub_key [(''data'', JDict [])] ''records''
   \<and> lacks_sub_key [(''data'', JDict [])] ''count''
   \<and> lacks_sub_key [(''data'', JDict [])] ''record''
   \<and> lacks_sub_key [(''data'', JDict [])] ''id''
   \<and> lacks_sub_key [(''data'', JDict [])] ''models''
   \<and> lacks_sub_key [(''data'', JDict [])] ''fields''
   \<and> lacks_sub_key [(''data'', JDict [])] ''result''
   \<and> fst (search keep_run (get_client anonymous_settings) ''res.partner'' None None 80 0 None
         (backend (Reply (JDict [(''result'', JDict [(''data'', JDict [])])])))) = Inr (JList [])
   \<and> fst (count keep_run (get_client anonymous_settings) ''res.partner'' None
         (backend (Reply (JDict [(''result'', JDict [(''data'', JDict [])])])))) = Inr (JInt 0)
   \<and> fst (read keep_run (get_client anonymous_settings) ''res.partner'' 5 None
         (backend (Reply (JDict [(''result'', JDict [(''data'', JDict [])])])))) = Inr (JDict [])
   \<and> fst (create keep_run (get_client anonymous_settings) ''res.partner'' [(''name'', JStr ''Acme'')]
         (backend (Reply (JDict [(''result'', JDict [(''data'', JDict [])])])))) = Inr JNull"
proof -
  have h1: "\<forall>u body. respond (backend (Reply (JDict [(''result'', JDict [(''data'', JDict [])])]))) u body
        = Reply (JDict [(''result'', JDict [(''data'', JDict [])])])"
    by (simp add: backend_def)
  have h2: "map_of [(''result'', JDict [(''data'', JDict [])])] ''error'' = None" by simp
  have h3: "map_of [(''result'', JDict [(''data'', JDict [])])] ''result''
      = Some (JDict [(''data'', JDict [])])" by simp
  have h4: "\<not> truthy (dict_get [(''data'', JDict [])] ''error'' JNull)"
    by (simp add: dict_get_def)
  have l: "lacks_sub_key [(''data'', JDict [])] key" for key
    by (simp add: lacks_sub_key_def)
  show ?thesis
    using h1 h2 h3 h4 l
      missing_sub_key_defaults [OF h1 h2 h3 h4,
        of keep_run "get_client anonymous_settings" "''res.partner''" None None 80 0 None 5
           "[(''name'', JStr ''Acme'')]"]
    by simp
qed

text \<open>
  C7 as stated fails: when \<^verbatim>\<open>data\<close> is \<^verbatim>\<open>null\<close> the payload lacks
  \<^verbatim>\<open>data.records\<close>, and \<^verbatim>\<open>search\<close> raises \<^verbatim>\<open>AttributeError\<close>.
\<close>

theorem null_data_counterexample:
  "fst (search keep_run (get_client anonymous_settings) ''res.partner'' None None 80 0 None
         (backend (Reply (JDict [(''result'', JDict [(''data'', JNull)])]))))
     = Inl (AttributeError (quoted ''NoneType'' @ '' object has no attribute '' @ quoted ''get''))"
  by (simp add: search_def fst_request sample_defs read_reply_def py_in_def py_get_def
      dict_get_def raise_if_error_def get_data_def case_prod_beta no_attribute_def)

subsection \<open>The search limit\<close>

text \<open>
  C6. For every limit the caller gives, the request that \<^verbatim>\<open>search_records\<close> sends (one
  request) carries \<^verbatim>\<open>min(limit, max_records)\<close> as its \<^verbatim>\<open>limit\<close>; with a maximum of
  100, a limit of 10000 goes out as 100.
\<close>

theorem search_limit_clamped:
  "map_of (sent_params (snd (search_records esc settings model domain fields' limit offset order n)))
      ''limit'' = Some (JInt (min limit (max_records settings)))
   \<and> length (sent (snd (search_records esc settings model domain fields' limit offset order n)))
      = Suc (length (sent n))
   \<and> map_of (sent_params (snd (search_records esc (settings\<lparr>max_records := 100\<rparr>) model domain
                fields' 10000 offset order n))) ''limit'' = Some (JInt 100)"
  apply (simp add: search_records_def search_def case_prod_beta Let_def sent_params_request sent_request)
  apply (simp add: add_authentication_def AList.update_conv' split: option.splits)
  done

subsection \<open>Formatting\<close>

lemma acme_groups:
  "group_fields esc acme =
     \<lparr>basic_fields = [(''name'', JStr ''Acme'')],
      relation_fields = [(''partner_id'', ''Bob (ID: 3)'')],
      other_fields = [(''tag_ids'', ''6 items: [1, 2, 3, 4, 5]...'')]\<rparr>"
  by (simp add: group_fields_def acme_def group_field_def skip_value_def is_many2one_def
      many2one_text_def items_text_def str_JStr str_JInt digits str_def)

lemma acme_heading:
  "dict_get acme ''id'' (JStr ''?'') = JInt 5"
  "str esc (record_name esc acme (JInt 5)) = ''Acme''"
  "str esc (JInt 5) = ''5''"
  by (simp_all add: dict_get_def acme_def record_name_def py_or_def str_JStr str_JInt digits)

text \<open>
  C8, as amended. Formatting the record of the example renders the relation field as the
  line \<^verbatim>\<open>- **partner_id**: Bob (ID: 3)\<close> and the collection field as the line
  \<^verbatim>\<open>- **tag_ids**: 6 items: [1, 2, 3, 4, 5]...\<close>: the count of 6, the first 5 items, and
  the ellipsis.
\<close>

theorem acme_lines:
  "format_record esc model (JDict acme) = Inr (join nl (format_record_lines esc model acme))
   \<and> format_record_lines esc model acme =
     [''# '' @ model @ '': Acme (ID: 5)'' @ nl,
      ''## Basic Information'',
      ''- **name**: Acme'',
      nl @ ''## Related Records'',
      ''- **partner_id**: Bob (ID: 3)'',
      nl @ ''## Other Data'',
      ''- **tag_ids**: 6 items: [1, 2, 3, 4, 5]...'']"
  by (simp add: format_record_def format_record_lines_def Let_def acme_groups acme_heading
      field_line_def str_JStr)

text \<open>
  C8 as stated fails: no line of the output is \<^verbatim>\<open>partner_id: Bob (ID: 3)\<close>; the line
  of the field has a list mark and the key in bold.
\<close>

theorem acme_line_counterexample:
  "''partner_id: Bob (ID: 3)'' \<notin> set (format_record_lines keep_run ''res.partner'' acme)
   \<and> ''- **partner_id**: Bob (ID: 3)'' \<in> set (format_record_lines keep_run ''res.partner'' acme)"
  by (simp add: format_record_lines_def Let_def acme_groups acme_heading field_line_def str_JStr nl_def)














subsection \<open>Failures at the caller\<close>

text \<open>
  C9, as amended. When the call of the client inside a tool raises \<^verbatim>\<open>OdooError\<close>, the tool
  returns a string that ends with the message of the error. The string names the operation
  and the model for \<^verbatim>\<open>search_records\<close>, \<^verbatim>\<open>get_record\<close>, \<^verbatim>\<open>count_records\<close>,
  \<^verbatim>\<open>get_model_fields\<close>, \<^verbatim>\<open>create_record\<close>, \<^verbatim>\<open>update_record\<close>, \<^verbatim>\<open>delete_record\<close> and
  \<^verbatim>\<open>execute_method\<close>, and the operation for \<^verbatim>\<open>list_models\<close>; it is
  \<^verbatim>\<open>Record not found: \<close> and \<^verbatim>\<open>Error: \<close> before the message for \<^verbatim>\<open>get_record_name\<close> and
  \<^verbatim>\<open>search_and_read_one\<close>. The four resources have no handler: the \<^verbatim>\<open>OdooError\<close>
  reaches their caller.
\<close>

theorem tools_report_OdooError:
  "(fst (search esc (get_client settings) model domain fields' (min limit (max_records settings)) offset order n) = Inl (OdooError m) \<longrightarrow>
          fst (search_records esc settings model domain fields' limit offset order n)
            = Inr (''Error searching '' @ model @ '': '' @ m))
   \<and> (fst (read esc (get_client settings) model record_id fields' n) = Inl (OdooError m) \<longrightarrow>
          fst (get_record esc settings model record_id fields' n)
            = Inr (''Error reading '' @ model @ '' record '' @ str_int record_id @ '': '' @ m))
   \<and> (fst (count esc (get_client settings) model domain n) = Inl (OdooError m) \<longrightarrow>
          fst (count_records esc settings model domain n)
            = Inr (''Error counting '' @ model @ '': '' @ m))
   \<and> (fst (list_models esc (get_client settings) n) = Inl (OdooError m) \<longrightarrow>
          fst (list_models_tool esc settings n)
            = Inr (''Error listing models: '' @ m))
   \<and> (fst (get_fields esc (get_client settings) model n) = Inl (OdooError m) \<longrightarrow>
          fst (get_model_fields esc render settings model field_types n)
            = Inr (''Error getting fields for '' @ model @ '': '' @ m))
   \<and> (fst (create esc (get_client settings) model values n) = Inl (OdooError m) \<longrightarrow>
          fst (create_record esc settings model values n)
            = Inr (cross_mark @ '' Error creating '' @ model @ '': '' @ m))
   \<and> (fst (write esc (get_client settings) model record_id values n) = Inl (OdooError m) \<longrightarrow>
          fst (update_record esc settings model record_id values n)
            = Inr (cross_mark @ '' Error updating '' @ model @ '' record '' @ str_int record_id
                @ '': '' @ m))
   \<and> (fst (unlink esc (get_client settings) model record_id n) = Inl (OdooError m) \<longrightarrow>
          fst (delete_record esc settings model record_id n)
            = Inr (cross_mark @ '' Error deleting '' @ model @ '' record '' @ str_int record_id
                @ '': '' @ m))
   \<and> (fst (execute esc (get_client settings) model method record_ids args kwargs n) = Inl (OdooError m) \<longrightarrow>
          fst (execute_method esc dumps settings model method record_ids args kwargs n)
            = Inr (cross_mark @ '' Error executing '' @ method @ '' on '' @ model @ '': '' @ m))
   \<and> (fst (read esc (get_client settings) model record_id (Some [JStr ''display_name'']) n) = Inl (OdooError m) \<longrightarrow>
          fst (get_record_name esc settings model record_id n)
            = Inr (JStr (''Record not found: '' @ m)))
   \<and> (fst (search esc (get_client settings) model (Some filter_domain) fields' 1 0 None n) = Inl (OdooError m) \<longrightarrow>
          fst (search_and_read_one esc settings model filter_domain fields' n)
            = Inr (''Error: '' @ m))
   \<and> (fst (list_models esc (get_client settings) n) = Inl (OdooError m) \<longrightarrow>
          fst (resource_models esc dumps settings n)
            = Inl (OdooError m))
   \<and> (fst (get_fields esc (get_client settings) model n) = Inl (OdooError m) \<longrightarrow>
          fst (resource_model_fields esc dumps settings model n)
            = Inl (OdooError m))
   \<and> (fst (count esc (get_client settings) model (Some []) n) = Inl (OdooError m) \<longrightarrow>
          fst (resource_count esc dumps settings model n)
            = Inl (OdooError m))
   \<and> (\<forall>i. int_of rid = Some i \<and> fst (read esc (get_client settings) model i None n) = Inl (OdooError m)
          \<longrightarrow> fst (resource_record esc int_of settings model rid n) = Inl (OdooError m))"
  by (simp add: search_records_def get_record_def count_records_def list_models_tool_def
      get_model_fields_def create_record_def update_record_def delete_record_def
      execute_method_def get_record_name_def search_and_read_one_def resource_models_def
      resource_model_fields_def resource_count_def resource_record_def
      case_prod_beta Let_def except_OdooError_def except_Exception_def)

theorem tools_report_OdooError_witness:
  "(fst (search keep_run (get_client anonymous_settings) ''res.partner'' None None (min 80 (max_records anonymous_settings)) 0 None (backend (RequestError ''refused''))) = Inl (OdooError ''Connection error: refused'')
    \<and> fst (read keep_run (get_client anonymous_settings) ''res.partner'' 1 None (backend (RequestError ''refused''))) = Inl (OdooError ''Connection error: refused'')
    \<and> fst (count keep_run (get_client anonymous_settings) ''res.partner'' None (backend (RequestError ''refused''))) = Inl (OdooError ''Connection error: refused'')
    \<and> fst (list_models keep_run (get_client anonymous_settings) (backend (RequestError ''refused''))) = Inl (OdooError ''Connection error: refused'')
    \<and> fst (get_fields keep_run (get_client anonymous_settings) ''res.partner'' (backend (RequestError ''refused''))) = Inl (OdooError ''Connection error: refused'')
    \<and> fst (create keep_run (get_client anonymous_settings) ''res.partner'' [] (backend (RequestError ''refused''))) = Inl (OdooError ''Connection error: refused'')
    \<and> fst (write keep_run (get_client anonymous_settings) ''res.partner'' 1 [] (backend (RequestError ''refused''))) = Inl (OdooError ''Connection error: refused'')
    \<and> fst (unlink keep_run (get_client anonymous_settings) ''res.partner'' 1 (backend (RequestError ''refused''))) = Inl (OdooError ''Connection error: refused'')
    \<and> fst (execute keep_run (get_client anonymous_settings) ''res.partner'' ''action_confirm'' None None None (backend (RequestError ''refused''))) = Inl (OdooError ''Connection error: refused'')
    \<and> fst (read keep_run (get_client anonymous_settings) ''res.partner'' 1 (Some [JStr ''display_name'']) (backend (RequestError ''refused''))) = Inl (OdooError ''Connection error: refused'')
    \<and> fst (search keep_run (get_client anonymous_settings) ''res.partner'' (Some []) None 1 0 None (backend (RequestError ''refused''))) = Inl (OdooError ''Connection error: refused'')
    \<and> fst (count keep_run (get_client anonymous_settings) ''res.partner'' (Some []) (backend (RequestError ''refused''))) = Inl (OdooError ''Connection error: refused'')
    \<and> plain_int ''1'' = Some 1)
   \<and> fst (search_records keep_run anonymous_settings ''res.partner'' None None 80 0 None (backend (RequestError ''refused'')))
       = Inr ''Error searching res.partner: Connection error: refused''
   \<and> fst (get_record keep_run anonymous_settings ''res.partner'' 1 None (backend (RequestError ''refused'')))
       = Inr ''Error reading res.partner record 1: Connection error: refused''
   \<and> fst (count_records keep_run anonymous_settings ''res.partner'' None (backend (RequestError ''refused'')))
       = Inr ''Error counting res.partner: Connection error: refused''
   \<and> fst (list_models_tool keep_run anonymous_settings (backend (RequestError ''refused'')))
       = Inr ''Error listing models: Connection error: refused''
   \<and> fst (get_model_fields keep_run plain_render anonymous_settings ''res.partner'' None (backend (RequestError ''refused'')))
       = Inr ''Error getting fields for res.partner: Connection error: refused''
   \<and> fst (create_record keep_run anonymous_settings ''res.partner'' [] (backend (RequestError ''refused'')))
       = Inr (cross_mark @ '' Error creating res.partner: Connection error: refused'')
   \<and> fst (update_record keep_run anonymous_settings ''res.partner'' 1 [] (backend (RequestError ''refused'')))
       = Inr (cross_mark @ '' Error updating res.partner record 1: Connection error: refused'')
   \<and> fst (delete_record keep_run anonymous_settings ''res.partner'' 1 (backend (RequestError ''refused'')))
       = Inr (cross_mark @ '' Error deleting res.partner record 1: Connection error: refused'')
   \<and> fst (execute_method keep_run (repr keep_run) anonymous_settings ''res.partner'' ''action_confirm'' None None None (backend (RequestError ''refused'')))
       = Inr (cross_mark @ '' Error executing action_confirm on res.partner: Connection error: refused'')
   \<and> fst (get_record_name keep_run anonymous_settings ''res.partner'' 1 (backend (RequestError ''refused'')))
       = Inr (JStr ''Record not found: Connection error: refused'')
   \<and> fst (search_and_read_one keep_run anonymous_settings ''res.partner'' [] None (backend (RequestError ''refused'')))
       = Inr ''Error: Connection error: refused''
   \<and> fst (resource_models keep_run (repr keep_run) anonymous_settings (backend (RequestError ''refused'')))
       = Inl (OdooError ''Connection error: refused'')
   \<and> fst (resource_model_fields keep_run (repr keep_run) anonymous_settings ''res.partner'' (backend (RequestError ''refused'')))
       = Inl (OdooError ''Connection error: refused'')
   \<and> fst (resource_count keep_run (repr keep_run) anonymous_settings ''res.partner'' (backend (RequestError ''refused'')))
       = Inl (OdooError ''Connection error: refused'')
   \<and> fst (resource_record keep_run plain_int anonymous_settings ''res.partner'' ''1''
         (backend (RequestError ''refused'')))
       = Inl (OdooError ''Connection error: refused'')"
proof -
  have ops: "fst (search keep_run (get_client anonymous_settings) ''res.partner'' None None (min 80 (max_records anonymous_settings)) 0 None (backend (RequestError ''refused''))) = Inl (OdooError ''Connection error: refused'')
    \<and> fst (read keep_run (get_client anonymous_settings) ''res.partner'' 1 None (backend (RequestError ''refused''))) = Inl (OdooError ''Connection error: refused'')
    \<and> fst (count keep_run (get_client anonymous_settings) ''res.partner'' None (backend (RequestError ''refused''))) = Inl (OdooError ''Connection error: refused'')
    \<and> fst (list_models keep_run (get_client anonymous_settings) (backend (RequestError ''refused''))) = Inl (OdooError ''Connection error: refused'')
    \<and> fst (get_fields keep_run (get_client anonymous_settings) ''res.partner'' (backend (RequestError ''refused''))) = Inl (OdooError ''Connection error: refused'')
    \<and> fst (create keep_run (get_client anonymous_settings) ''res.partner'' [] (backend (RequestError ''refused''))) = Inl (OdooError ''Connection error: refused'')
    \<and> fst (write keep_run (get_client anonymous_settings) ''res.partner'' 1 [] (backend (RequestError ''refused''))) = Inl (OdooError ''Connection error: refused'')
    \<and> fst (unlink keep_run (get_client anonymous_settings) ''res.partner'' 1 (backend (RequestError ''refused''))) = Inl (OdooError ''Connection error: refused'')
    \<and> fst (execute keep_run (get_client anonymous_settings) ''res.partner'' ''action_confirm'' None None None (backend (RequestError ''refused''))) = Inl (OdooError ''Connection error: refused'')
    \<and> fst (read keep_run (get_client anonymous_settings) ''res.partner'' 1 (Some [JStr ''display_name'']) (backend (RequestError ''refused''))) = Inl (OdooError ''Connection error: refused'')
    \<and> fst (search keep_run (get_client anonymous_settings) ''res.partner'' (Some []) None 1 0 None (backend (RequestError ''refused''))) = Inl (OdooError ''Connection error: refused'')
    \<and> fst (count keep_run (get_client anonymous_settings) ''res.partner'' (Some []) (backend (RequestError ''refused''))) = Inl (OdooError ''Connection error: refused'')
    \<and> plain_int ''1'' = Some 1"
    by (simp add: search_def read_def count_def list_models_def get_fields_def create_def
        write_def unlink_def execute_def case_prod_beta fst_request backend_def plain_int_def)
  have one: "str_int 1 = ''1''"
    by code_simp
  show ?thesis
    using ops
      tools_report_OdooError [of keep_run anonymous_settings "''res.partner''" None None 80 0 None
        "backend (RequestError ''refused'')" "''Connection error: refused''" 1
        plain_render None "[]" "''action_confirm''" None None None "repr keep_run" "[]" plain_int "''1''"]
    by (simp add: one)
qed

text \<open>
  C9 as stated fails: the resource \<^verbatim>\<open>odoo://{model}/record/{id}\<close> lets the
  \<^verbatim>\<open>OdooError\<close> of a refused connection through; \<^verbatim>\<open>search_and_read_one\<close> names neither
  itself nor the model; \<^verbatim>\<open>get_record\<close> lets the \<^verbatim>\<open>ValueError\<close> of a body that is not
  JSON through.
\<close>

theorem resource_raises_counterexample:
  "fst (resource_record keep_run plain_int anonymous_settings ''res.partner'' ''1''
         (backend (RequestError ''refused'')))
     = Inl (OdooError ''Connection error: refused'')
   \<and> fst (search_and_read_one keep_run anonymous_settings ''res.partner'' [] None
         (backend (RequestError ''refused'')))
     = Inr ''Error: Connection error: refused''
   \<and> fst (get_record keep_run anonymous_settings ''res.partner'' 1 None
         (backend (NotJSON ''Expecting value: line 1 column 1 (char 0)'')))
     = Inl (ValueError ''Expecting value: line 1 column 1 (char 0)'')"
  by (simp add: resource_record_def search_and_read_one_def get_record_def read_def search_def
      fst_request case_prod_beta backend_def plain_int_def except_OdooError_def)

end
